theory Spec2Isabelle
  imports Main "HOL-Library.Sublist" "HOL-Library.AList"
begin

section \<open>Python strings and dictionaries\<close>

text \<open>
  Python strings are modelled as \<^typ>\<open>string\<close>. The case conversions below are the ASCII
  part of \<open>str.lower\<close> and \<open>str.upper\<close>: the 26 letters are converted, every other
  character is left as it is. All keys and keywords of the program are ASCII.
\<close>

definition ascii_upper_letters :: string where
  "ascii_upper_letters = ''ABCDEFGHIJKLMNOPQRSTUVWXYZ''"

definition ascii_lower_letters :: string where
  "ascii_lower_letters = ''abcdefghijklmnopqrstuvwxyz''"

definition lower_char :: "char \<Rightarrow> char" where
  "lower_char c =
     (case map_of (zip ascii_upper_letters ascii_lower_letters) c of
        None \<Rightarrow> c | Some d \<Rightarrow> d)"


definition str_lower :: "string \<Rightarrow> string" where
  "str_lower s = map lower_char s"


text \<open>\<open>d.get(k, default)\<close> on a dictionary literal, kept as its list of items.\<close>

definition dict_get :: "('k \<times> 'v) list \<Rightarrow> 'k \<Rightarrow> 'v \<Rightarrow> 'v" where
  "dict_get d k dflt = (case map_of d k of None \<Rightarrow> dflt | Some v \<Rightarrow> v)"


text \<open>\<open>s.split(d)\<close> for a one-character separator \<open>d\<close>: never empty, one more piece
  than there are separators.\<close>

fun str_split :: "char \<Rightarrow> string \<Rightarrow> string list" where
  "str_split d [] = [[]]"
| "str_split d (c # cs) =
     (if c = d then [] # str_split d cs
      else (case str_split d cs of [] \<Rightarrow> [[c]] | l # ls \<Rightarrow> (c # l) # ls))"

text \<open>\<open>str(n)\<close> for an integer: decimal digits, with a minus sign when negative.\<close>

definition digit_char :: "nat \<Rightarrow> char" where
  "digit_char n = char_of (48 + n)"

fun str_nat :: "nat \<Rightarrow> string" where
  "str_nat n = (if n < 10 then [digit_char n] else str_nat (n div 10) @ [digit_char (n mod 10)])"

declare str_nat.simps [simp del]

definition str_int :: "int \<Rightarrow> string" where
  "str_int i = (if i < 0 then CHR ''-'' # str_nat (nat (- i)) else str_nat (nat i))"

section \<open>Python exceptions\<close>

text \<open>
  A function that can raise returns \<open>py_exception + 'a\<close>, with \<open>Inl\<close> for the exception
  that leaves the function. \<open>exception_str\<close> is \<open>str(e)\<close>.
\<close>

datatype py_exception =
    ValueError string
  | OSError string
  | UnicodeDecodeError
  | IndexError
  | TypeError string
  | OtherException string

fun exception_str :: "py_exception \<Rightarrow> string" where
  "exception_str (ValueError m) = m"
| "exception_str (OSError m) = m"
| "exception_str UnicodeDecodeError = ''invalid utf-8''"
| "exception_str IndexError = ''list index out of range''"
| "exception_str (TypeError m) = m"
| "exception_str (OtherException m) = m"

section \<open>Executor: language tables\<close>

text \<open>\<open>CodeExecutor._get_extension\<close> (code_executor.py).\<close>

definition CodeExecutor_extensions :: "(string \<times> string) list" where
  "CodeExecutor_extensions =
     [(''python'', ''py''), (''javascript'', ''js''), (''java'', ''java''),
      (''go'', ''go''), (''rust'', ''rs'')]"

definition CodeExecutor_get_extension :: "string \<Rightarrow> string" where
  "CodeExecutor_get_extension language =
     dict_get CodeExecutor_extensions (str_lower language) ''txt''"

definition get_command :: "string \<Rightarrow> string \<Rightarrow> string list option \<Rightarrow> string list" where
  "get_command language file_path args =
     (let args = (case args of None \<Rightarrow> [] | Some a \<Rightarrow> a);
          commands = [(''python'', [''python3'', file_path] @ args),
                      (''javascript'', [''node'', file_path] @ args)]
      in dict_get commands (str_lower language) [''cat'', file_path])"

definition get_docker_image :: "string \<Rightarrow> string" where
  "get_docker_image language =
     dict_get [(''python'', ''python:3.11-slim''), (''javascript'', ''node:18-slim'')]
       (str_lower language) ''python:3.11-slim''"

definition get_container_command :: "string \<Rightarrow> string \<Rightarrow> string list option \<Rightarrow> string list" where
  "get_container_command language filename args =
     (let args = (case args of None \<Rightarrow> [] | Some a \<Rightarrow> a);
          commands = [(''python'', [''python3'', filename] @ args),
                      (''javascript'', [''node'', filename] @ args)]
      in dict_get commands (str_lower language) [''cat'', filename])"

section \<open>Executor: the host it runs on\<close>

text \<open>
  What the executor asks of its host is a parameter of the model. \<open>subprocess.run\<close> either
  completes with the child's output and exit code, raises \<open>TimeoutExpired\<close> (the child
  was still running when the timeout passed), or raises something else (the command could
  not be started).
\<close>

datatype run_outcome =
    Completed string string int
  | Timeout_Expired
  | Run_Raised py_exception

text \<open>A \<open>bytes\<close> value: the text it decodes to as UTF-8, or one that does not decode.\<close>

datatype py_bytes = Utf8 string | Not_Utf8

fun bytes_decode :: "py_bytes \<Rightarrow> py_exception + string" where
  "bytes_decode (Utf8 s) = Inr s"
| "bytes_decode Not_Utf8 = Inl UnicodeDecodeError"

fun bytes_nonempty :: "py_bytes \<Rightarrow> bool" where
  "bytes_nonempty (Utf8 s) = (s \<noteq> [])"
| "bytes_nonempty Not_Utf8 = True"

text \<open>
  \<open>docker_client.containers.run\<close> returns the container's output (\<open>bytes\<close>, or another
  object of which the code takes \<open>str\<close>), raises \<open>docker.errors.ContainerError\<close> (the
  container exited with a non-zero exit code; the exception carries the exit status and the
  captured streams), or raises another exception.
\<close>

datatype container_output = Output_Bytes py_bytes | Output_Object string

record container_error =
  exit_status :: int
  error_stdout :: "py_bytes option"
  error_stderr :: "py_bytes option"
  error_str :: string

datatype docker_outcome =
    Run_Returned container_output
  | Container_Error container_error
  | Docker_Raised py_exception

datatype docker_client = Docker_Client

record exec_host =
  docker_from_env :: "py_exception + docker_client"
  named_temporary_file :: "string \<Rightarrow> string \<Rightarrow> py_exception + string"
  os_environ :: "(string \<times> string) list"
  subprocess_run :: "string list \<Rightarrow> (string \<times> string) list \<Rightarrow> int \<Rightarrow> run_outcome"
  temporary_directory :: "py_exception + string"
  write_code_file :: "string \<Rightarrow> string \<Rightarrow> py_exception option"
  containers_run ::
    "string \<Rightarrow> string list \<Rightarrow> string \<Rightarrow> (string \<times> string) list \<Rightarrow> bool \<Rightarrow> docker_outcome"


section \<open>Executor\<close>

record CodeExecutor =
  timeout :: int
  use_docker :: bool
  enable_sandboxing :: bool
  docker_client :: "docker_client option"

record ExecutionResult =
  stdout :: string
  stderr :: string
  return_code :: int
  success :: bool

text \<open>\<open>CodeExecutor.__init__\<close>: docker is dropped when its client cannot be created.\<close>

definition CodeExecutor_init :: "exec_host \<Rightarrow> int \<Rightarrow> bool \<Rightarrow> bool \<Rightarrow> CodeExecutor" where
  "CodeExecutor_init host timeout_arg use_docker_arg enable_sandboxing_arg =
     (if use_docker_arg then
        (case docker_from_env host of
           Inr client \<Rightarrow>
             \<lparr>timeout = timeout_arg, use_docker = True,
              enable_sandboxing = enable_sandboxing_arg, docker_client = Some client\<rparr>
         | Inl e \<Rightarrow>
             \<lparr>timeout = timeout_arg, use_docker = False,
              enable_sandboxing = enable_sandboxing_arg, docker_client = None\<rparr>)
      else
        \<lparr>timeout = timeout_arg, use_docker = False,
         enable_sandboxing = enable_sandboxing_arg, docker_client = None\<rparr>)"

text \<open>The dictionary the failure branches return, with \<open>str(e)\<close> or the timeout
  message as \<open>stderr\<close>.\<close>

definition failure_result :: "string \<Rightarrow> ExecutionResult" where
  "failure_result msg = \<lparr>stdout = '''', stderr = msg, return_code = - 1, success = False\<rparr>"

definition merge_environ :: "exec_host \<Rightarrow> (string \<times> string) list option \<Rightarrow> (string \<times> string) list" where
  "merge_environ host env_vars =
     (case env_vars of
        None \<Rightarrow> os_environ host
      | Some vs \<Rightarrow> AList.updates (map fst vs) (map snd vs) (os_environ host))"

text \<open>
  \<open>CodeExecutor._execute_locally\<close>. The temporary file is written before the \<open>try\<close>, so
  a failure there leaves the function as an exception. \<open>local_result\<close> is the \<open>try\<close>
  statement around \<open>subprocess.run\<close>: the \<open>return\<close> after a completed run and the two
  handlers. The \<open>finally\<close> block unlinks the file and swallows \<open>OSError\<close>; it does not
  change the value returned.
\<close>

fun local_result :: "CodeExecutor \<Rightarrow> run_outcome \<Rightarrow> ExecutionResult" where
  "local_result self (Completed out err rc) =
     \<lparr>stdout = out, stderr = err, return_code = rc, success = (rc = 0)\<rparr>"
| "local_result self Timeout_Expired =
     failure_result (''Execution timeout after '' @ str_int (timeout self) @ '' seconds'')"
| "local_result self (Run_Raised e) = failure_result (exception_str e)"

definition execute_locally ::
  "CodeExecutor \<Rightarrow> exec_host \<Rightarrow> string \<Rightarrow> string \<Rightarrow> string list option
     \<Rightarrow> (string \<times> string) list option \<Rightarrow> py_exception + ExecutionResult" where
  "execute_locally self host code language args env_vars =
     (case named_temporary_file host (''.'' @ CodeExecutor_get_extension language) code of
        Inl e \<Rightarrow> Inl e
      | Inr temp_file \<Rightarrow>
          Inr (local_result self
                 (subprocess_run host (get_command language temp_file args)
                    (merge_environ host env_vars) (timeout self))))"

text \<open>
  \<open>CodeExecutor._execute_in_docker\<close>. Everything from the temporary directory on is inside
  the \<open>try\<close>. \<open>docker_result\<close> is the \<open>return\<close> after \<open>containers.run\<close> and the two
  handlers. The handler of \<open>ContainerError\<close> decodes the captured streams; an exception
  raised there is not caught by the handler next to it and leaves the function.
\<close>

definition container_error_result :: "container_error \<Rightarrow> py_exception + ExecutionResult" where
  "container_error_result e =
     (case (case error_stdout e of
              None \<Rightarrow> Inr ''''
            | Some b \<Rightarrow> if bytes_nonempty b then bytes_decode b else Inr '''') of
        Inl x \<Rightarrow> Inl x
      | Inr out \<Rightarrow>
          (case (case error_stderr e of
                   None \<Rightarrow> Inr (error_str e)
                 | Some b \<Rightarrow> if bytes_nonempty b then bytes_decode b else Inr (error_str e)) of
             Inl x \<Rightarrow> Inl x
           | Inr err \<Rightarrow>
               Inr \<lparr>stdout = out, stderr = err, return_code = exit_status e, success = False\<rparr>))"

fun docker_result :: "docker_outcome \<Rightarrow> py_exception + ExecutionResult" where
  "docker_result (Run_Returned (Output_Bytes b)) =
     (case bytes_decode b of
        Inl e \<Rightarrow> Inr (failure_result (exception_str e))
      | Inr text \<Rightarrow> Inr \<lparr>stdout = text, stderr = '''', return_code = 0, success = True\<rparr>)"
| "docker_result (Run_Returned (Output_Object text)) =
     Inr \<lparr>stdout = text, stderr = '''', return_code = 0, success = True\<rparr>"
| "docker_result (Container_Error e) = container_error_result e"
| "docker_result (Docker_Raised e) = Inr (failure_result (exception_str e))"

definition execute_in_docker ::
  "CodeExecutor \<Rightarrow> exec_host \<Rightarrow> string \<Rightarrow> string \<Rightarrow> string list option
     \<Rightarrow> (string \<times> string) list option \<Rightarrow> py_exception + ExecutionResult" where
  "execute_in_docker self host code language args env_vars =
     (case docker_client self of
        None \<Rightarrow> execute_locally self host code language args env_vars
      | Some client \<Rightarrow>
          (let image = get_docker_image language in
           case temporary_directory host of
             Inl e \<Rightarrow> Inr (failure_result (exception_str e))
           | Inr tmpdir \<Rightarrow>
               (case write_code_file host
                       (tmpdir @ ''/code.'' @ CodeExecutor_get_extension language) code of
                  Some e \<Rightarrow> Inr (failure_result (exception_str e))
                | None \<Rightarrow>
                    docker_result
                      (containers_run host image
                         (get_container_command language
                            (''code.'' @ CodeExecutor_get_extension language) args)
                         tmpdir
                         (case env_vars of None \<Rightarrow> [] | Some vs \<Rightarrow> vs)
                         (enable_sandboxing self)))))"

definition execute_python ::
  "CodeExecutor \<Rightarrow> exec_host \<Rightarrow> string \<Rightarrow> string list option
     \<Rightarrow> (string \<times> string) list option \<Rightarrow> py_exception + ExecutionResult" where
  "execute_python self host code args env_vars =
     (if use_docker self then execute_in_docker self host code ''python'' args env_vars
      else execute_locally self host code ''python'' args env_vars)"

section \<open>Dates and times\<close>

text \<open>
  A \<open>datetime\<close> value, as \<open>datetime.now()\<close> returns it. Python only builds valid ones:
  \<open>valid_datetime\<close> is the range of each field. \<open>zero_pad w n\<close> is the decimal numeral of
  \<open>n\<close> filled with zeros on the left up to width \<open>w\<close>, as the \<open>strftime\<close> directives and
  \<open>isoformat\<close> print their fields.
\<close>

record datetime =
  year :: nat
  month :: nat
  day :: nat
  hour :: nat
  minute :: nat
  second :: nat
  microsecond :: nat

definition valid_datetime :: "datetime \<Rightarrow> bool" where
  "valid_datetime d =
     (1 \<le> year d \<and> year d \<le> 9999 \<and> 1 \<le> month d \<and> month d \<le> 12 \<and> 1 \<le> day d \<and> day d \<le> 31
      \<and> hour d < 24 \<and> minute d < 60 \<and> second d < 60 \<and> microsecond d < 1000000)"

definition zero_pad :: "nat \<Rightarrow> nat \<Rightarrow> string" where
  "zero_pad w n = replicate (w - length (str_nat n)) (CHR ''0'') @ str_nat n"

text \<open>\<open>d.strftime("%Y%m%d_%H%M%S")\<close>.\<close>

definition strftime_Ymd_HMS :: "datetime \<Rightarrow> string" where
  "strftime_Ymd_HMS d =
     zero_pad 4 (year d) @ zero_pad 2 (month d) @ zero_pad 2 (day d) @ ''_''
     @ zero_pad 2 (hour d) @ zero_pad 2 (minute d) @ zero_pad 2 (second d)"

definition isoformat :: "datetime \<Rightarrow> string" where
  "isoformat d =
     zero_pad 4 (year d) @ ''-'' @ zero_pad 2 (month d) @ ''-'' @ zero_pad 2 (day d) @ ''T''
     @ zero_pad 2 (hour d) @ '':'' @ zero_pad 2 (minute d) @ '':'' @ zero_pad 2 (second d)
     @ (if microsecond d = 0 then '''' else ''.'' @ zero_pad 6 (microsecond d))"

section \<open>Paths\<close>

text \<open>
  A \<open>pathlib\<close> path on POSIX: whether it starts at the root, and its parts. Parsing a string
  splits it at \<open>/\<close> and drops empty parts and \<open>.\<close> parts; \<open>..\<close> is kept as a part, as
  \<open>pathlib\<close> keeps it.
\<close>

record pure_path =
  anchored :: bool
  parts :: "string list"

definition Path :: "string \<Rightarrow> pure_path" where
  "Path s =
     \<lparr>anchored = (s \<noteq> [] \<and> hd s = CHR ''/''),
      parts = filter (\<lambda>p. p \<noteq> [] \<and> p \<noteq> ''.'') (str_split (CHR ''/'') s)\<rparr>"

text \<open>\<open>p / s\<close>: an absolute right-hand side replaces the left-hand side.\<close>

definition joinpath :: "pure_path \<Rightarrow> string \<Rightarrow> pure_path" where
  "joinpath p s =
     (let q = Path s in
      if anchored q then q else \<lparr>anchored = anchored p, parts = parts p @ parts q\<rparr>)"

definition path_name :: "pure_path \<Rightarrow> string" where
  "path_name p = (if parts p = [] then '''' else last (parts p))"

fun str_join :: "string \<Rightarrow> string list \<Rightarrow> string" where
  "str_join sep [] = []"
| "str_join sep [x] = x"
| "str_join sep (x # y # ys) = x @ sep @ str_join sep (y # ys)"

definition path_str :: "pure_path \<Rightarrow> string" where
  "path_str p =
     (if anchored p then CHR ''/'' # str_join ''/'' (parts p)
      else if parts p = [] then ''.'' else str_join ''/'' (parts p))"

text \<open>\<open>s.rfind(c)\<close> as an option: the index of the last \<open>c\<close> in \<open>s\<close>.\<close>

fun str_rfind :: "char \<Rightarrow> string \<Rightarrow> nat option" where
  "str_rfind c [] = None"
| "str_rfind c (x # xs) =
     (case str_rfind c xs of
        Some i \<Rightarrow> Some (Suc i)
      | None \<Rightarrow> if x = c then Some 0 else None)"

text \<open>\<open>p.suffix\<close>: the name from its last dot on, unless that dot is the first or the last
  character of the name.\<close>

definition path_suffix :: "pure_path \<Rightarrow> string" where
  "path_suffix p =
     (let name = path_name p in
      case str_rfind (CHR ''.'') name of
        None \<Rightarrow> ''''
      | Some i \<Rightarrow> if 0 < i \<and> i < length name - 1 then drop i name else '''')"

section \<open>The file system\<close>

text \<open>
  The file system is a tree: a file with its text, or a directory with its entries in the
  order the operating system lists them. There are no symbolic links, and a part \<open>..\<close> of
  a path is looked up like any other name. A relative path is taken from the working
  directory.
\<close>

datatype node = File string | Dir "(string \<times> node) list"

fun lookup :: "node \<Rightarrow> string list \<Rightarrow> node option" where
  "lookup n [] = Some n"
| "lookup (File c) (x # xs) = None"
| "lookup (Dir es) (x # xs) = (case map_of es x of None \<Rightarrow> None | Some ch \<Rightarrow> lookup ch xs)"

text \<open>\<open>put t p n\<close> places \<open>n\<close> at \<open>p\<close> when the parent of \<open>p\<close> is a directory of \<open>t\<close>;
  \<open>remove t p\<close> takes the entry at \<open>p\<close> away, with everything below it.\<close>

fun put :: "node \<Rightarrow> string list \<Rightarrow> node \<Rightarrow> node" where
  "put t [] n = n"
| "put (File c) (x # xs) n = File c"
| "put (Dir es) [x] n = Dir (AList.update x n es)"
| "put (Dir es) (x # y # ys) n =
     (case map_of es x of
        None \<Rightarrow> Dir es
      | Some ch \<Rightarrow> Dir (AList.update x (put ch (y # ys) n) es))"


text \<open>\<open>mkdirs t p\<close> creates the directory \<open>p\<close> and its missing parents; \<open>None\<close> when a
  file is in the way.\<close>

fun mkdirs :: "node \<Rightarrow> string list \<Rightarrow> node option" where
  "mkdirs (File c) p = None"
| "mkdirs (Dir es) [] = Some (Dir es)"
| "mkdirs (Dir es) (x # xs) =
     (case mkdirs (case map_of es x of None \<Rightarrow> Dir [] | Some ch \<Rightarrow> ch) xs of
        None \<Rightarrow> None
      | Some ch \<Rightarrow> Some (Dir (AList.update x ch es)))"



text \<open>
  The world outside the program: the tree, the working directory, and what the model takes
  as given. \<open>fault\<close> says which calls the operating system refuses (missing permission, an
  input/output error), with the text of the \<open>OSError\<close>; a refused call changes nothing.
  \<open>subprocess\<close> is the outcome of \<open>subprocess.run\<close> for a command and a timeout,
  \<open>st_ctime\<close> the change time of an entry, \<open>json_dumps\<close> and \<open>json_loads\<close> the \<open>json\<close>
  module.
\<close>

datatype os_call =
    Call_glob "string list"
  | Call_stat "string list"
  | Call_mkdir "string list"
  | Call_write_text "string list"
  | Call_read_text "string list"
  | Call_rmtree "string list"
  | Call_iterdir "string list"

record world =
  root :: node
  cwd :: "string list"
  fault :: "os_call \<Rightarrow> string option"
  dir_st_size :: nat
  st_ctime :: "string list \<Rightarrow> datetime"
  subprocess :: "string list \<Rightarrow> int \<Rightarrow> run_outcome"
  json_dumps :: "(string \<times> string) list \<Rightarrow> py_exception + string"
  json_loads :: "string \<Rightarrow> py_exception + (string \<times> string) list"

definition locate :: "world \<Rightarrow> pure_path \<Rightarrow> string list" where
  "locate w p = (if anchored p then parts p else cwd w @ parts p)"

definition path_exists :: "world \<Rightarrow> pure_path \<Rightarrow> bool" where
  "path_exists w p = (lookup (root w) (locate w p) \<noteq> None)"


definition child :: "pure_path \<Rightarrow> string \<Rightarrow> pure_path" where
  "child p name = \<lparr>anchored = anchored p, parts = parts p @ [name]\<rparr>"

text \<open>\<open>list(p.glob(pre + "*"))\<close>: the entries of the directory \<open>p\<close> whose names start with
  \<open>pre\<close>; nothing when \<open>p\<close> is not a directory.\<close>

definition path_glob :: "world \<Rightarrow> pure_path \<Rightarrow> string \<Rightarrow> py_exception + pure_path list" where
  "path_glob w p pre =
     (case fault w (Call_glob (locate w p)) of
        Some m \<Rightarrow> Inl (OSError m)
      | None \<Rightarrow>
          (case lookup (root w) (locate w p) of
             Some (Dir es) \<Rightarrow> Inr (map (child p) (filter (prefix pre) (map fst es)))
           | _ \<Rightarrow> Inr []))"

text \<open>\<open>p.stat().st_size\<close>.\<close>

definition path_stat_size :: "world \<Rightarrow> pure_path \<Rightarrow> py_exception + nat" where
  "path_stat_size w p =
     (case fault w (Call_stat (locate w p)) of
        Some m \<Rightarrow> Inl (OSError m)
      | None \<Rightarrow>
          (case lookup (root w) (locate w p) of
             None \<Rightarrow> Inl (OSError ''No such file or directory'')
           | Some (File c) \<Rightarrow> Inr (length c)
           | Some (Dir es) \<Rightarrow> Inr (dir_st_size w)))"


text \<open>\<open>p.mkdir(parents=True, exist_ok=True)\<close>.\<close>

definition path_mkdir :: "world \<Rightarrow> pure_path \<Rightarrow> py_exception + world" where
  "path_mkdir w p =
     (case fault w (Call_mkdir (locate w p)) of
        Some m \<Rightarrow> Inl (OSError m)
      | None \<Rightarrow>
          (case mkdirs (root w) (locate w p) of
             None \<Rightarrow> Inl (OSError ''File exists'')
           | Some t \<Rightarrow> Inr (w\<lparr>root := t\<rparr>)))"

text \<open>\<open>p.write_text(text)\<close>: the parent must be a directory and \<open>p\<close> must not be one.\<close>

definition path_write_text :: "world \<Rightarrow> pure_path \<Rightarrow> string \<Rightarrow> py_exception + world" where
  "path_write_text w p text =
     (case fault w (Call_write_text (locate w p)) of
        Some m \<Rightarrow> Inl (OSError m)
      | None \<Rightarrow>
          (case lookup (root w) (locate w p) of
             Some (Dir es) \<Rightarrow> Inl (OSError ''Is a directory'')
           | _ \<Rightarrow>
               (case lookup (root w) (butlast (locate w p)) of
                  Some (Dir es) \<Rightarrow> Inr (w\<lparr>root := put (root w) (locate w p) (File text)\<rparr>)
                | _ \<Rightarrow> Inl (OSError ''No such file or directory''))))"





section \<open>Deployer: language table\<close>

text \<open>\<open>Deployer._get_extension\<close> (deployer.py), a separate copy of the table.\<close>

definition Deployer_extensions :: "(string \<times> string) list" where
  "Deployer_extensions =
     [(''python'', ''py''), (''javascript'', ''js''), (''java'', ''java''),
      (''go'', ''go''), (''rust'', ''rs'')]"

definition Deployer_get_extension :: "string \<Rightarrow> string" where
  "Deployer_get_extension language =
     dict_get Deployer_extensions (str_lower language) ''txt''"

section \<open>Deployer\<close>

record Deployer =
  deploy_path :: pure_path
  provider :: string

text \<open>Python's \<open>a or b\<close> on optional strings: \<open>None\<close> and the empty string are false.\<close>

definition str_truthy :: "string option \<Rightarrow> bool" where
  "str_truthy a = (case a of None \<Rightarrow> False | Some s \<Rightarrow> s \<noteq> [])"

definition py_or :: "string option \<Rightarrow> string option \<Rightarrow> string option" where
  "py_or a b = (if str_truthy a then a else b)"

text \<open>\<open>Deployer.__init__\<close>; \<open>env_deploy_path\<close> is the environment variable
  \<open>DEPLOY_PATH\<close>.\<close>

definition Deployer_init ::
  "world \<Rightarrow> string option \<Rightarrow> string option \<Rightarrow> string \<Rightarrow> py_exception + Deployer \<times> world" where
  "Deployer_init w deploy_path_arg env_deploy_path provider_arg =
     (let p = Path (case py_or deploy_path_arg
                      (Some (case env_deploy_path of
                               None \<Rightarrow> ''/tmp/gptbuilder_deployments''
                             | Some v \<Rightarrow> v)) of
                      None \<Rightarrow> '''' | Some s \<Rightarrow> s)
      in case path_mkdir w p of
           Inl e \<Rightarrow> Inl e
         | Inr w' \<Rightarrow> Inr (\<lparr>deploy_path = p, provider = provider_arg\<rparr>, w'))"

text \<open>The two dictionaries \<open>deploy_code\<close> returns: \<open>deployment_name\<close>, \<open>deployment_path\<close>
  and \<open>code_file\<close> with \<open>success\<close> true, or \<open>deployment_name\<close> and \<open>error\<close> with
  \<open>success\<close> false.\<close>

datatype deploy_result =
    Deployed string string string
  | Deploy_Failed string string

fun deploy_success :: "deploy_result \<Rightarrow> bool" where
  "deploy_success (Deployed n p f) = True"
| "deploy_success (Deploy_Failed n e) = False"

fun result_deployment_name :: "deploy_result \<Rightarrow> string" where
  "result_deployment_name (Deployed n p f) = n"
| "result_deployment_name (Deploy_Failed n e) = n"

definition nl :: string where
  "nl = [CHR 0x0A]"

definition dict_truthy :: "('k \<times> 'v) list option \<Rightarrow> bool" where
  "dict_truthy m = (case m of None \<Rightarrow> False | Some kvs \<Rightarrow> kvs \<noteq> [])"

text \<open>\<open>Deployer._generate_readme\<close>; the values of the metadata are kept as their \<open>str\<close>.\<close>

definition generate_readme ::
  "string \<Rightarrow> string \<Rightarrow> (string \<times> string) list option \<Rightarrow> datetime \<Rightarrow> string" where
  "generate_readme name language metadata now =
     ''# '' @ name @ nl @ nl
     @ ''Automatically generated and deployed by GPTbuilderauto'' @ nl @ nl
     @ ''## Language'' @ nl @ language @ nl @ nl
     @ ''## Deployment Information'' @ nl @ ''- Deployed: '' @ isoformat now @ nl
     @ (if dict_truthy metadata then
          nl @ ''## Metadata'' @ nl
          @ concat (map (\<lambda>(key, v). ''- **'' @ key @ ''**: '' @ v @ nl) (the metadata))
        else '''')
     @ nl @ ''## Usage'' @ nl @ ''Run the main file to execute the code.'' @ nl @ nl
     @ ''---'' @ nl
     @ ''*Generated by GPTbuilderauto - Autonomous code creation, execution, deployment, and maintenance*''
     @ nl"

text \<open>
  \<open>Deployer.deploy_code\<close>. \<open>now\<close> is the clock when the timestamp is taken and
  \<open>now_readme\<close> the clock when the README is written. Every step is inside the \<open>try\<close>;
  what was written before a failure stays.
\<close>

definition write_metadata ::
  "world \<Rightarrow> pure_path \<Rightarrow> (string \<times> string) list option \<Rightarrow> py_exception + world" where
  "write_metadata w deployment_dir metadata =
     (if dict_truthy metadata then
        (case json_dumps w (the metadata) of
           Inl e \<Rightarrow> Inl e
         | Inr text \<Rightarrow> path_write_text w (joinpath deployment_dir ''metadata.json'') text)
      else Inr w)"

definition deploy_code ::
  "Deployer \<Rightarrow> world \<Rightarrow> string \<Rightarrow> string \<Rightarrow> string \<Rightarrow> (string \<times> string) list option
     \<Rightarrow> datetime \<Rightarrow> datetime \<Rightarrow> deploy_result \<times> world" where
  "deploy_code self w code name language metadata now now_readme =
     (let timestamp = strftime_Ymd_HMS now;
          deployment_name = name @ ''_'' @ timestamp;
          deployment_dir = joinpath (deploy_path self) deployment_name
      in case path_mkdir w deployment_dir of
           Inl e \<Rightarrow> (Deploy_Failed deployment_name (exception_str e), w)
         | Inr w1 \<Rightarrow>
             (let extension = Deployer_get_extension language;
                  code_file = joinpath deployment_dir (''main.'' @ extension)
              in case path_write_text w1 code_file code of
                   Inl e \<Rightarrow> (Deploy_Failed deployment_name (exception_str e), w1)
                 | Inr w2 \<Rightarrow>
                     (case write_metadata w2 deployment_dir metadata of
                        Inl e \<Rightarrow> (Deploy_Failed deployment_name (exception_str e), w2)
                      | Inr w3 \<Rightarrow>
                          (case path_write_text w3 (joinpath deployment_dir ''README.md'')
                                  (generate_readme name language metadata now_readme) of
                             Inl e \<Rightarrow> (Deploy_Failed deployment_name (exception_str e), w3)
                           | Inr w4 \<Rightarrow>
                               (Deployed deployment_name (path_str deployment_dir)
                                  (path_str code_file), w4)))))"






section \<open>Monitor\<close>

text \<open>
  The two dictionaries \<open>health_check\<close> returns: \<open>status\<close> \<open>error\<close> with \<open>message\<close> and
  \<open>timestamp\<close>, or \<open>status\<close>, \<open>deployment_path\<close>, \<open>main_file\<close>, \<open>file_size\<close>,
  \<open>syntax_valid\<close> and \<open>timestamp\<close>.
\<close>

datatype health_record =
    Health_Error string string
  | Health_Status string string string nat bool string

fun status :: "health_record \<Rightarrow> string" where
  "status (Health_Error m t) = ''error''"
| "status (Health_Status s p f n v t) = s"

fun message :: "health_record \<Rightarrow> string option" where
  "message (Health_Error m t) = Some m"
| "message (Health_Status s p f n v t) = None"


record MaintenanceMonitor =
  check_interval :: int
  health_history :: "string \<Rightarrow> health_record list option"

definition MaintenanceMonitor_init :: "int \<Rightarrow> MaintenanceMonitor" where
  "MaintenanceMonitor_init check_interval_arg =
     \<lparr>check_interval = check_interval_arg, health_history = Map.empty\<rparr>"

text \<open>\<open>MaintenanceMonitor._check_python_syntax\<close>.\<close>

definition check_python_syntax :: "world \<Rightarrow> pure_path \<Rightarrow> bool" where
  "check_python_syntax w file_path =
     (case subprocess w [''python3'', ''-m'', ''py_compile'', path_str file_path] 10 of
        Completed out err rc \<Rightarrow> rc = 0
      | Timeout_Expired \<Rightarrow> False
      | Run_Raised e \<Rightarrow> False)"

text \<open>
  \<open>MaintenanceMonitor.health_check\<close>, returning the record and the monitor after the call.
  \<open>now\<close> is the clock when the record is made.
\<close>

definition store_in_history :: "MaintenanceMonitor \<Rightarrow> string \<Rightarrow> health_record \<Rightarrow> MaintenanceMonitor" where
  "store_in_history self deployment_name health_status =
     self\<lparr>health_history :=
       (health_history self)
         (deployment_name \<mapsto>
            (case health_history self deployment_name of None \<Rightarrow> [] | Some h \<Rightarrow> h)
            @ [health_status])\<rparr>"

definition health_check ::
  "MaintenanceMonitor \<Rightarrow> world \<Rightarrow> string \<Rightarrow> datetime \<Rightarrow> health_record \<times> MaintenanceMonitor" where
  "health_check self w deployment_path_arg now =
     (let deployment_path = Path deployment_path_arg in
      if \<not> path_exists w deployment_path then
        (Health_Error ''Deployment not found'' (isoformat now), self)
      else
        (case path_glob w deployment_path ''main.'' of
           Inl e \<Rightarrow> (Health_Error (exception_str e) (isoformat now), self)
         | Inr [] \<Rightarrow> (Health_Error ''Main file not found'' (isoformat now), self)
         | Inr (main_file # others) \<Rightarrow>
             (case path_stat_size w main_file of
                Inl e \<Rightarrow> (Health_Error (exception_str e) (isoformat now), self)
              | Inr file_size \<Rightarrow>
                  (let syntax_ok =
                         (if path_suffix main_file = ''.py''
                          then check_python_syntax w main_file else True);
                       health_status =
                         Health_Status (if syntax_ok then ''healthy'' else ''warning'')
                           (path_str deployment_path) (path_str main_file) file_size
                           syntax_ok (isoformat now)
                   in (health_status,
                       store_in_history self (path_name deployment_path) health_status)))))"

text \<open>The count of error records in \<open>MaintenanceMonitor.generate_report\<close>.\<close>

definition error_count :: "health_record list \<Rightarrow> nat" where
  "error_count history = length (filter (\<lambda>h. status h = ''error'') history)"

text \<open>No history that \<open>health_check\<close> builds holds an error record.\<close>

definition history_without_errors :: "MaintenanceMonitor \<Rightarrow> bool" where
  "history_without_errors self =
     (\<forall>name h. health_history self name = Some h \<longrightarrow> error_count h = 0)"

text \<open>\<open>xs[-n:]\<close>: the last \<open>n\<close> elements, all of them when there are fewer.\<close>

definition last_n :: "nat \<Rightarrow> 'a list \<Rightarrow> 'a list" where
  "last_n n xs = drop (length xs - n) xs"




section \<open>Generator\<close>

text \<open>
  The provider is a parameter: \<open>client.chat.completions.create\<close> answers a request with a
  response or raises. Each method returns the requests it sent with its result, so that
  "before contacting the provider" can be said.
\<close>

record chat_request =
  request_model :: string
  request_messages :: "(string \<times> string) list"
  request_temperature :: string

record chat_response =
  choices :: "string list"
  total_tokens :: int

datatype openai_client = OpenAI string

record CodeGenerator =
  api_key :: "string option"
  model :: string
  client :: "openai_client option"

text \<open>\<open>CodeGenerator.__init__\<close>; \<open>env_api_key\<close> is the environment variable
  \<open>OPENAI_API_KEY\<close>. The result is a sum so that a constructor that raises could be told
  from one that returns.\<close>

definition CodeGenerator_init ::
  "string option \<Rightarrow> string \<Rightarrow> string option \<Rightarrow> py_exception + CodeGenerator" where
  "CodeGenerator_init api_key_arg model_arg env_api_key =
     (let key = py_or api_key_arg env_api_key in
      Inr \<lparr>api_key = key, model = model_arg,
           client = (if str_truthy key then Some (OpenAI (the key)) else None)\<rparr>)"

record generation_result =
  gen_code :: string
  gen_language :: string
  gen_requirement :: string
  gen_model :: string
  tokens_used :: int

text \<open>\<open>response.choices[0].message.content\<close>.\<close>

definition first_choice :: "chat_response \<Rightarrow> py_exception + string" where
  "first_choice response =
     (case choices response of [] \<Rightarrow> Inl IndexError | c # cs \<Rightarrow> Inr c)"

definition generate_code ::
  "CodeGenerator \<Rightarrow> (chat_request \<Rightarrow> py_exception + chat_response) \<Rightarrow> string \<Rightarrow> string
     \<Rightarrow> string option \<Rightarrow> chat_request list \<times> (py_exception + generation_result)" where
  "generate_code self create requirement language context =
     (case client self of
        None \<Rightarrow> ([], Inl (ValueError ''OpenAI API key not configured''))
      | Some c \<Rightarrow>
          (let system_prompt =
                 ''You are an expert '' @ language @ '' developer.'' @ nl
                 @ ''Generate clean, well-documented, production-ready code based on the user's requirements.''
                 @ nl
                 @ ''Include error handling, type hints, and follow best practices.'';
               user_prompt =
                 ''Requirement: '' @ requirement
                 @ (if str_truthy context then nl @ nl @ ''Context:'' @ nl @ the context else '''');
               request =
                 \<lparr>request_model = model self,
                  request_messages = [(''system'', system_prompt), (''user'', user_prompt)],
                  request_temperature = ''0.7''\<rparr>
           in case create request of
                Inl e \<Rightarrow> ([request], Inl e)
              | Inr response \<Rightarrow>
                  (case first_choice response of
                     Inl e \<Rightarrow> ([request], Inl e)
                   | Inr generated_code \<Rightarrow>
                       ([request],
                        Inr \<lparr>gen_code = generated_code, gen_language = language,
                             gen_requirement = requirement, gen_model = model self,
                             tokens_used = total_tokens response\<rparr>))))"

definition single_prompt ::
  "CodeGenerator \<Rightarrow> (chat_request \<Rightarrow> py_exception + chat_response) \<Rightarrow> string
     \<Rightarrow> chat_request list \<times> (py_exception + string)" where
  "single_prompt self create prompt =
     (let request =
            \<lparr>request_model = model self, request_messages = [(''user'', prompt)],
             request_temperature = ''0.7''\<rparr>
      in case create request of
           Inl e \<Rightarrow> ([request], Inl e)
         | Inr response \<Rightarrow> ([request], first_choice response))"

definition refine_code ::
  "CodeGenerator \<Rightarrow> (chat_request \<Rightarrow> py_exception + chat_response) \<Rightarrow> string \<Rightarrow> string
     \<Rightarrow> string \<Rightarrow> chat_request list \<times> (py_exception + string)" where
  "refine_code self create code feedback language =
     (case client self of
        None \<Rightarrow> ([], Inl (ValueError ''OpenAI API key not configured''))
      | Some c \<Rightarrow>
          single_prompt self create
            (''Here is some '' @ language @ '' code:'' @ nl @ nl
             @ ''```'' @ language @ nl @ code @ nl @ ''```'' @ nl @ nl
             @ ''Please refine this code based on the following feedback:'' @ nl
             @ feedback @ nl @ nl
             @ ''Provide only the refined code without explanations.''))"

definition generate_tests ::
  "CodeGenerator \<Rightarrow> (chat_request \<Rightarrow> py_exception + chat_response) \<Rightarrow> string \<Rightarrow> string
     \<Rightarrow> chat_request list \<times> (py_exception + string)" where
  "generate_tests self create code language =
     (case client self of
        None \<Rightarrow> ([], Inl (ValueError ''OpenAI API key not configured''))
      | Some c \<Rightarrow>
          single_prompt self create
            (''Generate comprehensive unit tests for this '' @ language @ '' code:'' @ nl @ nl
             @ ''```'' @ language @ nl @ code @ nl @ ''```'' @ nl @ nl
             @ ''Include edge cases and error conditions. Use pytest for Python.''))"

section \<open>Log lines, as the specification words them\<close>



section \<open>Example inputs\<close>

text \<open>A provider that answers every request.\<close>

definition example_create :: "chat_request \<Rightarrow> py_exception + chat_response" where
  "example_create request = Inr \<lparr>choices = [''def hello(): pass''], total_tokens = 100\<rparr>"

definition example_clock :: datetime where
  "example_clock =
     \<lparr>year = 2024, month = 1, day = 15, hour = 10, minute = 30, second = 45, microsecond = 0\<rparr>"

definition example_log :: string where
  "example_log =
     nl @ ''INFO: Application started'' @ nl
     @ ''WARNING: Config file not found'' @ nl
     @ ''ERROR: Database connection failed'' @ nl
     @ ''INFO: Retrying connection'' @ nl
     @ ''Error: Connection timeout'' @ nl"

text \<open>A world with three deployments under \<open>/deploy\<close> and a log file; the syntax check
  of every Python file fails.\<close>

definition example_world :: world where
  "example_world =
     \<lparr>root = Dir [(''deploy'',
                Dir [(''app_20240115_103045'',
                      Dir [(''main.py'', File ''def invalid syntax here''),
                           (''README.md'', File ''# app'')]),
                     (''js_app'', Dir [(''main.js'', File ''console.log(1);'')]),
                     (''empty'', Dir [])]),
               (''var'', Dir [(''test.log'', File example_log)])],
      cwd = [],
      fault = (\<lambda>c. None),
      dir_st_size = 4096,
      st_ctime = (\<lambda>p. example_clock),
      subprocess = (\<lambda>cmd t. Completed '''' ''SyntaxError: invalid syntax'' 1),
      json_dumps = (\<lambda>kvs. Inr ''{}''),
      json_loads = (\<lambda>s. Inr [])\<rparr>"


text \<open>A host on which every child process times out and every container exits with
  status 2.\<close>

definition example_host :: exec_host where
  "example_host =
     \<lparr>docker_from_env = Inr Docker_Client,
      named_temporary_file = (\<lambda>suffix code. Inr (''/tmp/tmp0'' @ suffix)),
      os_environ = [(''PATH'', ''/usr/bin'')],
      subprocess_run = (\<lambda>cmd env t. Timeout_Expired),
      temporary_directory = Inr ''/tmp/dir0'',
      write_code_file = (\<lambda>path code. None),
      containers_run = (\<lambda>image command tmpdir environment network_disabled.
        Container_Error \<lparr>exit_status = 2, error_stdout = None,
          error_stderr = Some (Utf8 ''boom''), error_str = ''exit 2''\<rparr>)\<rparr>"



section \<open>Reading digits back\<close>

text \<open>The number that a string of decimal digits denotes; used to show that distinct
  numbers print differently.\<close>

definition nat_of_digits :: "string \<Rightarrow> nat" where
  "nat_of_digits s = foldl (\<lambda>a c. 10 * a + (of_char c - 48)) 0 s"

section \<open>Facts about strings\<close>


lemma str_split_not_Nil: "str_split d s \<noteq> []"
  by (induction s) (auto split: list.splits)


lemma str_lower_idem: "str_lower (str_lower s) = str_lower s"
proof -
  have "lower_char (lower_char c) = lower_char c" for c
    by (simp add: lower_char_def ascii_upper_letters_def ascii_lower_letters_def)
  then show ?thesis by (simp add: str_lower_def)
qed

section \<open>The extension mapping\<close>

text \<open>
  Claim C7. The extension mapping returns a result for every language string: looked up
  without regard to (ASCII) case, \<open>python\<close> gives \<open>py\<close>, \<open>javascript\<close> gives \<open>js\<close>,
  \<open>java\<close> gives \<open>java\<close>, \<open>go\<close> gives \<open>go\<close>, \<open>rust\<close> gives \<open>rs\<close>, and every other
  input gives the default \<open>txt\<close>.
\<close>

theorem get_extension_table:
  "CodeExecutor_get_extension l =
     (if str_lower l = ''python'' then ''py''
      else if str_lower l = ''javascript'' then ''js''
      else if str_lower l = ''java'' then ''java''
      else if str_lower l = ''go'' then ''go''
      else if str_lower l = ''rust'' then ''rs''
      else ''txt'')"
  by (simp add: CodeExecutor_get_extension_def CodeExecutor_extensions_def dict_get_def)

theorem get_extension_table_witness:
  "CodeExecutor_get_extension ''PyThon'' = ''py''
   \<and> CodeExecutor_get_extension ''JAVASCRIPT'' = ''js''
   \<and> CodeExecutor_get_extension ''Java'' = ''java''
   \<and> CodeExecutor_get_extension ''go'' = ''go''
   \<and> CodeExecutor_get_extension ''Rust'' = ''rs''
   \<and> CodeExecutor_get_extension ''cobol'' = ''txt''
   \<and> CodeExecutor_get_extension '''' = ''txt''"
  using get_extension_table [of "''PyThon''"] get_extension_table [of "''JAVASCRIPT''"]
    get_extension_table [of "''Java''"] get_extension_table [of "''go''"]
    get_extension_table [of "''Rust''"] get_extension_table [of "''cobol''"]
    get_extension_table [of "''''"]
  by (simp add: str_lower_def lower_char_def ascii_upper_letters_def ascii_lower_letters_def)

text \<open>
  Claim C10. The Executor's and the Deployer's extension mappings agree on every language
  string.
\<close>

theorem get_extension_executor_deployer:
  "Deployer_get_extension l = CodeExecutor_get_extension l"
  by (simp add: Deployer_get_extension_def CodeExecutor_get_extension_def
      Deployer_extensions_def CodeExecutor_extensions_def)

section \<open>Execution results\<close>







text \<open>Without the contract of the docker library the container branch would return
  \<open>success\<close> false with \<open>return_code\<close> 0.\<close>

lemma container_error_status_zero:
  "container_error_result
     \<lparr>exit_status = 0, error_stdout = None, error_stderr = None, error_str = ''e''\<rparr>
   = Inr \<lparr>stdout = '''', stderr = ''e'', return_code = 0, success = False\<rparr>"
  by (simp add: container_error_result_def)

lemma sublist_timeout_message:
  "sublist ''timeout'' (''Execution timeout after '' @ s @ '' seconds'')"
proof -
  have "''Execution timeout after '' @ s @ '' seconds''
        = ''Execution '' @ ''timeout'' @ ('' after '' @ s @ '' seconds'')"
    by simp
  then show ?thesis
    unfolding sublist_def by blast
qed





text \<open>
  Claim C2. A local execution whose child process is still running when the timeout
  passes returns \<open>success\<close> false, \<open>return_code\<close> -1, an empty \<open>stdout\<close> and a
  \<open>stderr\<close> that contains \<open>timeout\<close>; \<open>execute_python\<close> without docker is such a local
  execution.
\<close>

theorem local_timeout_result:
  assumes "named_temporary_file host (''.'' @ CodeExecutor_get_extension language) code
             = Inr temp_file"
      and "subprocess_run host (get_command language temp_file args)
             (merge_environ host env_vars) (timeout self) = Timeout_Expired"
  shows "execute_locally self host code language args env_vars =
           Inr \<lparr>stdout = '''',
                stderr = ''Execution timeout after '' @ str_int (timeout self) @ '' seconds'',
                return_code = - 1, success = False\<rparr>
         \<and> sublist ''timeout''
             (''Execution timeout after '' @ str_int (timeout self) @ '' seconds'')
         \<and> (language = ''python'' \<and> (\<not> use_docker self \<or> docker_client self = None)
              \<longrightarrow> execute_python self host code args env_vars =
                    execute_locally self host code language args env_vars)"
proof (intro conjI)
  show "execute_locally self host code language args env_vars =
           Inr \<lparr>stdout = '''',
                stderr = ''Execution timeout after '' @ str_int (timeout self) @ '' seconds'',
                return_code = - 1, success = False\<rparr>"
    using assms by (simp add: execute_locally_def failure_result_def)
  show "sublist ''timeout''
          (''Execution timeout after '' @ str_int (timeout self) @ '' seconds'')"
    by (rule sublist_timeout_message)
  show "language = ''python'' \<and> (\<not> use_docker self \<or> docker_client self = None)
          \<longrightarrow> execute_python self host code args env_vars =
                execute_locally self host code language args env_vars"
    by (auto simp: execute_python_def execute_in_docker_def)
qed

theorem local_timeout_result_witness:
  "execute_python (CodeExecutor_init example_host 300 False True) example_host
     ''import time; time.sleep(1000)'' None None
   = Inr \<lparr>stdout = '''', stderr = ''Execution timeout after 300 seconds'',
          return_code = - 1, success = False\<rparr>
   \<and> sublist ''timeout'' ''Execution timeout after 300 seconds''"
proof -
  let ?self = "CodeExecutor_init example_host 300 False True"
  have self: "?self = \<lparr>timeout = 300, use_docker = False, enable_sandboxing = True,
      docker_client = None\<rparr>"
    by (simp add: CodeExecutor_init_def)
  have tmp: "named_temporary_file example_host (''.'' @ CodeExecutor_get_extension ''python'')
      ''import time; time.sleep(1000)''
      = Inr (''/tmp/tmp0'' @ ''.'' @ CodeExecutor_get_extension ''python'')"
    by (simp add: example_host_def)
  have run: "subprocess_run example_host
      (get_command ''python'' (''/tmp/tmp0'' @ ''.'' @ CodeExecutor_get_extension ''python'') None)
      (merge_environ example_host None) (timeout ?self) = Timeout_Expired"
    by (simp add: example_host_def)
  have t: "str_int 300 = ''300''"
    by code_simp
  from local_timeout_result [OF tmp run] show ?thesis
    by (simp add: t self)
qed

section \<open>The generator without a credential\<close>

lemma py_or_falsy: "\<not> str_truthy a \<Longrightarrow> py_or a b = b"
  by (simp add: py_or_def)

text \<open>
  Claim C6, as amended. Without a credential (no key argument and no environment variable,
  or empty ones) the constructor returns a generator with no client, and every call of
  \<open>generate_code\<close>, \<open>refine_code\<close> and \<open>generate_tests\<close> on it raises
  \<open>ValueError\<close> without a request to the provider.
\<close>

theorem absent_credential_raises_at_call:
  assumes "\<not> str_truthy api_key_arg" and "\<not> str_truthy env_api_key"
  shows "(let g = \<lparr>api_key = env_api_key, model = model_arg, client = None\<rparr> in
          CodeGenerator_init api_key_arg model_arg env_api_key = Inr g
          \<and> generate_code g create requirement language context
               = ([], Inl (ValueError ''OpenAI API key not configured''))
          \<and> refine_code g create code feedback language
               = ([], Inl (ValueError ''OpenAI API key not configured''))
          \<and> generate_tests g create code language
               = ([], Inl (ValueError ''OpenAI API key not configured'')))"
  using assms
  by (simp add: CodeGenerator_init_def py_or_falsy generate_code_def refine_code_def
      generate_tests_def)

theorem absent_credential_raises_at_call_witness:
  "CodeGenerator_init None ''gpt-4'' (Some '''')
     = Inr \<lparr>api_key = Some '''', model = ''gpt-4'', client = None\<rparr>
   \<and> generate_code \<lparr>api_key = Some '''', model = ''gpt-4'', client = None\<rparr> example_create
        ''create a hello function'' ''python'' None
      = ([], Inl (ValueError ''OpenAI API key not configured''))
   \<and> refine_code \<lparr>api_key = Some '''', model = ''gpt-4'', client = None\<rparr> example_create
        ''def old(): pass'' ''improve this'' ''python''
      = ([], Inl (ValueError ''OpenAI API key not configured''))
   \<and> generate_tests \<lparr>api_key = Some '''', model = ''gpt-4'', client = None\<rparr> example_create
        ''def func(): pass'' ''python''
      = ([], Inl (ValueError ''OpenAI API key not configured''))"
  using absent_credential_raises_at_call [of None "Some ''''" "''gpt-4''" example_create
      "''create a hello function''" "''python''" None "''def old(): pass''" "''improve this''"]
    absent_credential_raises_at_call [of None "Some ''''" "''gpt-4''" example_create
      "''create a hello function''" "''python''" None "''def func(): pass''" "''improve this''"]
  by (simp add: str_truthy_def Let_def)

text \<open>The constructor does not raise without a credential: it returns.\<close>

theorem construction_without_credential_counterexample:
  "CodeGenerator_init None ''gpt-4'' None
     = Inr \<lparr>api_key = None, model = ''gpt-4'', client = None\<rparr>"
  by (simp add: CodeGenerator_init_def py_or_def str_truthy_def)

section \<open>Log analysis\<close>

lemma str_join_split: "str_join [d] (str_split d s) = s"
proof (induction s)
  case Nil
  then show ?case by simp
next
  case (Cons c cs)
  then show ?case
    by (cases "str_split d cs"; cases "tl (str_split d cs)") (auto simp: str_split_not_Nil)
qed

lemma str_split_no_separator: "l \<in> set (str_split d s) \<Longrightarrow> d \<notin> set l"
  by (induction s arbitrary: l) (auto split: if_splits list.splits)

lemma last_n_Nil [simp]: "last_n n [] = []"
  by (simp add: last_n_def)



lemma last_n_short: "length xs \<le> n \<Longrightarrow> last_n n xs = xs"
  by (simp add: last_n_def)






section \<open>Facts about the file system\<close>




section \<open>Health checks\<close>

lemma health_check_missing:
  "lookup (root w) (locate w (Path arg)) = None
   \<Longrightarrow> health_check self w arg now = (Health_Error ''Deployment not found'' (isoformat now), self)"
  by (simp add: health_check_def path_exists_def)












section \<open>The history of health checks\<close>

lemma status_Health_Status_written:
  "status (Health_Status (if ok then ''healthy'' else ''warning'') p f n ok t) \<noteq> ''error''"
  by simp

lemma health_check_result_shape:
  "(\<exists>m. health_check self w arg now = (Health_Error m (isoformat now), self))
   \<or> (\<exists>p f n ok.
        health_check self w arg now =
          (Health_Status (if ok then ''healthy'' else ''warning'') p f n ok (isoformat now),
           store_in_history self (path_name (Path arg))
             (Health_Status (if ok then ''healthy'' else ''warning'') p f n ok (isoformat now))))"
  by (auto simp: health_check_def Let_def split: sum.splits list.splits)

text \<open>
  Claim C4. What the code does: a record with status \<open>error\<close> is returned without being
  stored, and the monitor is left as it was; only a \<open>healthy\<close> or \<open>warning\<close> record is
  appended to the history of the base name. In particular a check of a missing path
  returns the \<open>Deployment not found\<close> record and stores nothing.
\<close>

theorem health_check_history:
  "(status (fst (health_check self w arg now)) = ''error''
      \<longrightarrow> snd (health_check self w arg now) = self)
   \<and> (status (fst (health_check self w arg now)) \<noteq> ''error''
      \<longrightarrow> health_history (snd (health_check self w arg now)) (path_name (Path arg))
            = Some ((case health_history self (path_name (Path arg)) of
                       None \<Rightarrow> [] | Some h \<Rightarrow> h)
                    @ [fst (health_check self w arg now)]))
   \<and> (lookup (root w) (locate w (Path arg)) = None
      \<longrightarrow> health_check self w arg now
            = (Health_Error ''Deployment not found'' (isoformat now), self))"
  using health_check_result_shape [of self w arg now]
  by (auto simp: store_in_history_def health_check_missing split: if_splits)

theorem health_check_history_witness:
  "lookup (root example_world) (locate example_world (Path ''/nonexistent/path'')) = None
   \<and> health_check (MaintenanceMonitor_init 300) example_world ''/nonexistent/path'' example_clock
       = (Health_Error ''Deployment not found'' ''2024-01-15T10:30:45'',
          MaintenanceMonitor_init 300)
   \<and> health_history (MaintenanceMonitor_init 300) (path_name (Path ''/nonexistent/path'')) = None"
proof -
  have a: "lookup (root example_world) (locate example_world (Path ''/nonexistent/path'')) = None"
    by code_simp
  have t: "isoformat example_clock = ''2024-01-15T10:30:45''"
    by code_simp
  from health_check_history [of "MaintenanceMonitor_init 300" example_world
      "''/nonexistent/path''" example_clock] a
  show ?thesis
    by (simp add: t MaintenanceMonitor_init_def)
qed

lemma health_check_history_without_errors:
  assumes "history_without_errors self"
  shows "history_without_errors (snd (health_check self w arg now))"
  using assms health_check_result_shape [of self w arg now]
  by (auto simp: history_without_errors_def store_in_history_def error_count_def
      split: option.splits if_splits)

section \<open>More facts about the file system\<close>










section \<open>Listing and deleting deployments\<close>




lemma locate_root_update [simp]: "locate (w\<lparr>root := t\<rparr>) p = locate w p"
  by (simp add: locate_def)








section \<open>Facts about digits\<close>

lemma of_char_digit_char: "k < 10 \<Longrightarrow> of_char (digit_char k) = 48 + k"
  by (simp add: digit_char_def)

lemma nat_of_digits_snoc:
  "nat_of_digits (s @ [c]) = 10 * nat_of_digits s + (of_char c - 48)"
  by (simp add: nat_of_digits_def)

lemma nat_of_digits_str_nat: "nat_of_digits (str_nat n) = n"
proof (induction n rule: str_nat.induct)
  case (1 n)
  show ?case
  proof (cases "n < 10")
    case True
    then show ?thesis
      by (simp add: str_nat.simps [of n] nat_of_digits_def of_char_digit_char)
  next
    case False
    with 1 have "nat_of_digits (str_nat (n div 10)) = n div 10"
      by simp
    with False show ?thesis
      by (simp add: str_nat.simps [of n] nat_of_digits_snoc of_char_digit_char)
  qed
qed

lemma nat_of_digits_zeros:
  "nat_of_digits (replicate k (CHR ''0'') @ s) = nat_of_digits s"
  by (induction k) (simp_all add: nat_of_digits_def)

lemma nat_of_digits_zero_pad: "nat_of_digits (zero_pad w n) = n"
  by (simp add: zero_pad_def nat_of_digits_zeros nat_of_digits_str_nat)

lemma zero_pad_inject: "zero_pad w a = zero_pad w b \<Longrightarrow> a = b"
  by (metis nat_of_digits_zero_pad)

lemma digit_char_digit: "k < 10 \<Longrightarrow> digit_char k \<in> set ''0123456789''"
proof -
  have "\<forall>k \<in> set [0..<10]. digit_char k \<in> set ''0123456789''"
    by code_simp
  moreover assume "k < 10"
  ultimately show ?thesis
    by simp
qed

lemma str_nat_digits: "set (str_nat n) \<subseteq> set ''0123456789''"
proof (induction n rule: str_nat.induct)
  case (1 n)
  show ?case
  proof (cases "n < 10")
    case True
    with digit_char_digit [of n] show ?thesis
      by (simp add: str_nat.simps [of n])
  next
    case False
    with 1 digit_char_digit [of "n mod 10"] show ?thesis
      by (simp add: str_nat.simps [of n])
  qed
qed

lemma length_str_nat_10: "n < 10 \<Longrightarrow> length (str_nat n) = 1"
  by (simp add: str_nat.simps [of n])

lemma length_str_nat_100: "n < 100 \<Longrightarrow> length (str_nat n) \<le> 2"
  by (simp add: str_nat.simps [of n] length_str_nat_10)

lemma length_str_nat_1000: "n < 1000 \<Longrightarrow> length (str_nat n) \<le> 3"
  using length_str_nat_100 [of "n div 10"] by (simp add: str_nat.simps [of n])

lemma length_str_nat_10000: "n < 10000 \<Longrightarrow> length (str_nat n) \<le> 4"
  using length_str_nat_1000 [of "n div 10"] by (simp add: str_nat.simps [of n])

lemma length_zero_pad: "length (str_nat n) \<le> w \<Longrightarrow> length (zero_pad w n) = w"
  by (simp add: zero_pad_def)

lemma zero_pad_digits: "set (zero_pad w n) \<subseteq> set ''0123456789''"
  using str_nat_digits [of n] by (auto simp: zero_pad_def)


end
